theory Spec2Isabelle
  imports Main "HOL-Library.Multiset"
begin

section \<open>The messaging service of edu-mate (src/routes/messages.py)\<close>

text \<open>
  The handlers of \<^verbatim>\<open>src/routes/messages.py\<close> are Flask routes that run a few SQL
  statements against one SQLite database. The embedding makes the database an explicit
  value that every handler takes and returns, the session, the clock and the failures
  of the store a request environment, and the HTTP response a datatype.
\<close>

subsection \<open>Data model\<close>

type_synonym timestamp = nat

text \<open>A row of the \<^verbatim>\<open>messages\<close> table, with the columns the handlers name.\<close>

record message =
  msg_id :: int
  sender_id :: int
  receiver_id :: int
  subject :: string
  content :: string
  message_type :: string
  parent_message_id :: "int option"
  related_content_id :: "int option"
  related_user_id :: "int option"
  sent_at :: timestamp
  is_read :: bool
  read_at :: "timestamp option"
  is_deleted_by_sender :: bool
  is_deleted_by_receiver :: bool

text \<open>The columns of \<^verbatim>\<open>users\<close> that the joins read.\<close>

record user =
  full_name :: string
  email :: string

text \<open>A row of \<^verbatim>\<open>message_notifications\<close>.\<close>

record notification =
  user_id :: int
  notification_type :: string
  is_enabled :: bool
  email_enabled :: bool
  updated_at :: timestamp

text \<open>
  The database: the \<^verbatim>\<open>messages\<close> rows in insertion order, \<^verbatim>\<open>users\<close> and the
  titles of \<^verbatim>\<open>content\<close> by primary key, and the notification rows.
\<close>

record db =
  messages :: "message list"
  users :: "int \<rightharpoonup> user"
  content_title :: "int \<rightharpoonup> string"
  message_notifications :: "notification list"

text \<open>
  The request environment: \<^verbatim>\<open>session['user_id']\<close> (every handler runs behind
  \<^verbatim>\<open>login_required\<close>), the value of the k-th \<^verbatim>\<open>datetime.now()\<close> of the
  request, whether the k-th \<^verbatim>\<open>get_db_connection()\<close> returns a connection, and the
  exception, if any, that the k-th \<^verbatim>\<open>cursor.execute\<close> raises.
\<close>

record env =
  session_user_id :: int
  now :: "nat \<Rightarrow> timestamp"
  connects :: "nat \<Rightarrow> bool"
  raises :: "nat \<Rightarrow> string option"

text \<open>A fetched row: the message and the joined columns by their SQL alias.\<close>

record row =
  row_message :: message
  joined :: "(string \<times> string option) list"

datatype jval = JBool bool | JStr string | JNum nat

datatype tval = Rows "row list" | Row row | Num nat

text \<open>
  What a handler answers: a rendered template with its variables, a redirect to an
  endpoint, a JSON body with its status code, or an exception that leaves the handler.
\<close>

datatype response =
    Render string "(string \<times> tval) list"
  | Redirect string
  | Jsonify "(string \<times> jval) list" nat
  | Unhandled string

text \<open>The flashed message and its category, if any, and the response.\<close>

type_synonym reply = "(string \<times> string) option \<times> response"

subsection \<open>Strings\<close>

text \<open>
  Python's \<^verbatim>\<open>str.strip()\<close> removes leading and trailing whitespace; these are the
  whitespace code points below 256.
\<close>

definition isspace :: "char \<Rightarrow> bool" where
  "isspace c \<longleftrightarrow> c \<in> set [CHR 0x09, CHR 0x0A, CHR 0x0B, CHR 0x0C, CHR 0x0D,
     CHR 0x1C, CHR 0x1D, CHR 0x1E, CHR 0x1F, CHR 0x20, CHR 0x85, CHR 0xA0]"

definition strip :: "string \<Rightarrow> string" where
  "strip s = rev (dropWhile isspace (rev (dropWhile isspace s)))"

fun startswith :: "string \<Rightarrow> string \<Rightarrow> bool" where
  "startswith s [] = True"
| "startswith [] (p # ps) = False"
| "startswith (c # cs) (p # ps) = (c = p \<and> startswith cs ps)"

text \<open>Python's \<^verbatim>\<open>p in s\<close> on strings.\<close>

fun str_in :: "string \<Rightarrow> string \<Rightarrow> bool" where
  "str_in p [] = (p = [])"
| "str_in p (c # cs) = (startswith (c # cs) p \<or> str_in p cs)"

text \<open>
  \<^verbatim>\<open>subject LIKE '%Publication Request%'\<close>, the test of both queries for publication
  requests. SQLite's \<^verbatim>\<open>LIKE\<close> reads the subject as a zero-terminated string, so the
  subject counts only up to its first NUL character, and it compares ASCII letters
  without regard to case (the application sets no \<^verbatim>\<open>case_sensitive_like\<close> pragma).
  The pattern has no wildcard between its two \<^verbatim>\<open>%\<close>, so the test holds when the
  subject up to its first NUL contains "Publication Request" up to the case of ASCII
  letters.
\<close>

definition c_string :: "string \<Rightarrow> string" where
  "c_string s = takeWhile (\<lambda>c. c \<noteq> CHR 0x00) s"

definition ascii_lower :: "char \<Rightarrow> char" where
  "ascii_lower c =
     (case map_of (zip ''ABCDEFGHIJKLMNOPQRSTUVWXYZ'' ''abcdefghijklmnopqrstuvwxyz'') c of
        None \<Rightarrow> c | Some l \<Rightarrow> l)"

definition like_publication_request :: "string \<Rightarrow> bool" where
  "like_publication_request s =
     str_in (map ascii_lower ''Publication Request'') (map ascii_lower (c_string s))"

subsection \<open>Statements shared by the handlers\<close>

text \<open>
  Modelled from the spec: the primary key of the \<^verbatim>\<open>messages\<close> table, whose schema
  is not among the sources. An inserted row gets the next row id of the table (in
  SQLite one more than the largest id in use, 1 in an empty table).
\<close>

definition next_id :: "message list \<Rightarrow> int" where
  "next_id ms = fold max (map msg_id ms) 0 + 1"

text \<open>
  Modelled from the spec: the column defaults of the \<^verbatim>\<open>messages\<close> table, whose
  schema is not among the sources. \<^verbatim>\<open>INSERT INTO messages\<close> appends one row; a
  column the statement does not name is \<^verbatim>\<open>NULL\<close>, except that \<^verbatim>\<open>is_read\<close> and
  both deletion flags start false.
\<close>

definition insert_message ::
  "db \<Rightarrow> int \<Rightarrow> int \<Rightarrow> string \<Rightarrow> string \<Rightarrow> string \<Rightarrow> int option \<Rightarrow> int option \<Rightarrow> int option
     \<Rightarrow> timestamp \<Rightarrow> db" where
  "insert_message d sender receiver subj body mtype parent rel_content rel_user sent =
     d\<lparr>messages := messages d @
        [\<lparr>msg_id = next_id (messages d), sender_id = sender, receiver_id = receiver,
          subject = subj, content = body, message_type = mtype,
          parent_message_id = parent, related_content_id = rel_content,
          related_user_id = rel_user, sent_at = sent, is_read = False, read_at = None,
          is_deleted_by_sender = False, is_deleted_by_receiver = False\<rparr>]\<rparr>"

text \<open>\<^verbatim>\<open>UPDATE messages SET ... WHERE\<close>: every row the condition selects is changed.\<close>

definition update_messages :: "(message \<Rightarrow> bool) \<Rightarrow> (message \<Rightarrow> message) \<Rightarrow> db \<Rightarrow> db" where
  "update_messages cond upd d =
     d\<lparr>messages := map (\<lambda>m. if cond m then upd m else m) (messages d)\<rparr>"

text \<open>The primary key: no two rows of \<^verbatim>\<open>messages\<close> share an id.\<close>

definition wf_db :: "db \<Rightarrow> bool" where
  "wf_db d \<longleftrightarrow> distinct (map msg_id (messages d))"

definition sender_columns :: "db \<Rightarrow> message \<Rightarrow> (string \<times> string option) list" where
  "sender_columns d m =
     [(''sender_name'', map_option full_name (users d (sender_id m))),
      (''sender_email'', map_option email (users d (sender_id m)))]"

definition receiver_columns :: "db \<Rightarrow> message \<Rightarrow> (string \<times> string option) list" where
  "receiver_columns d m =
     [(''receiver_name'', map_option full_name (users d (receiver_id m))),
      (''receiver_email'', map_option email (users d (receiver_id m)))]"

definition content_columns :: "db \<Rightarrow> message \<Rightarrow> (string \<times> string option) list" where
  "content_columns d m =
     [(''content_title'',
       (case related_content_id m of None \<Rightarrow> None | Some c \<Rightarrow> content_title d c))]"

definition db_connection_error :: "(string \<times> string) option" where
  "db_connection_error = Some (''Database connection error.'', ''error'')"

definition not_found_or_denied :: "(string \<times> string) option" where
  "not_found_or_denied = Some (''Message not found or access denied.'', ''error'')"

subsection \<open>get_unread_count\<close>

text \<open>
  The helper opens a connection of its own: \<open>conn\<close> says whether it gets one,
  \<open>exc\<close> whether its query raises. Both failures answer 0.
\<close>

definition get_unread_count :: "bool \<Rightarrow> string option \<Rightarrow> db \<Rightarrow> int \<Rightarrow> nat" where
  "get_unread_count conn exc d uid =
     (if \<not> conn then 0
      else case exc of
        Some err \<Rightarrow> 0
      | None \<Rightarrow> length (filter (\<lambda>m. receiver_id m = uid \<and> \<not> is_read m \<and>
                                     \<not> is_deleted_by_receiver m) (messages d)))"

subsection \<open>view_message\<close>

definition visible_to :: "int \<Rightarrow> message \<Rightarrow> bool" where
  "visible_to uid m \<longleftrightarrow>
     (receiver_id m = uid \<and> \<not> is_deleted_by_receiver m) \<or>
     (sender_id m = uid \<and> \<not> is_deleted_by_sender m)"

definition view_row :: "db \<Rightarrow> message \<Rightarrow> row" where
  "view_row d m =
     \<lparr>row_message = m,
      joined = sender_columns d m @ receiver_columns d m @ content_columns d m\<rparr>"

definition view_error :: "string \<Rightarrow> reply" where
  "view_error err =
     (Some (''Error viewing message: '' @ err, ''error''), Redirect ''messages.inbox'')"

text \<open>
  The row that is rendered is the one fetched before the update; the update is the
  statement \<^verbatim>\<open>UPDATE messages SET is_read = TRUE, read_at = ? WHERE id = ?\<close>.
\<close>

definition view_message :: "env \<Rightarrow> db \<Rightarrow> int \<Rightarrow> reply \<times> db" where
  "view_message e d message_id =
     (if \<not> connects e 0 then ((db_connection_error, Redirect ''messages.inbox''), d)
      else case raises e 0 of
        Some err \<Rightarrow> (view_error err, d)
      | None \<Rightarrow>
         (case find (\<lambda>m. msg_id m = message_id \<and> visible_to (session_user_id e) m)
                 (messages d) of
            None \<Rightarrow> ((not_found_or_denied, Redirect ''messages.inbox''), d)
          | Some message \<Rightarrow>
             if receiver_id message = session_user_id e \<and> \<not> is_read message then
               (case raises e 1 of
                  Some err \<Rightarrow> (view_error err, d)
                | None \<Rightarrow>
                   ((None, Render ''messages/view.html''
                             [(''message'', Row (view_row d message))]),
                    update_messages (\<lambda>m. msg_id m = message_id)
                      (\<lambda>m. m\<lparr>is_read := True, read_at := Some (now e 0)\<rparr>) d))
             else
               ((None, Render ''messages/view.html''
                         [(''message'', Row (view_row d message))]), d)))"

subsection \<open>mark_as_read\<close>

definition mark_as_read :: "env \<Rightarrow> db \<Rightarrow> int \<Rightarrow> reply \<times> db" where
  "mark_as_read e d message_id =
     (if \<not> connects e 0 then
        ((None, Jsonify [(''success'', JBool False),
                         (''error'', JStr ''Database connection error'')] 200), d)
      else case raises e 0 of
        Some err \<Rightarrow>
          ((None, Jsonify [(''success'', JBool False), (''error'', JStr err)] 200), d)
      | None \<Rightarrow>
          (let d' = update_messages
                      (\<lambda>m. msg_id m = message_id \<and> receiver_id m = session_user_id e)
                      (\<lambda>m. m\<lparr>is_read := True, read_at := Some (now e 0)\<rparr>) d
           in ((None, Jsonify [(''success'', JBool True),
                               (''unread_count'',
                                JNum (get_unread_count (connects e 1) (raises e 1) d'
                                        (session_user_id e)))] 200), d')))"

subsection \<open>inbox\<close>

text \<open>
  \<^verbatim>\<open>ORDER BY m.sent_at DESC\<close>: the rows by descending send time (SQL leaves the
  order of rows with equal send times open; the model takes one such order).
\<close>

definition order_by_sent_at_desc :: "row list \<Rightarrow> row list" where
  "order_by_sent_at_desc rs = rev (sort_key (\<lambda>r. sent_at (row_message r)) rs)"

definition received_messages :: "db \<Rightarrow> int \<Rightarrow> row list" where
  "received_messages d uid =
     order_by_sent_at_desc
       (map (\<lambda>m. \<lparr>row_message = m, joined = sender_columns d m @ content_columns d m\<rparr>)
          (filter (\<lambda>m. receiver_id m = uid \<and> \<not> is_deleted_by_receiver m) (messages d)))"

definition sent_messages :: "db \<Rightarrow> int \<Rightarrow> row list" where
  "sent_messages d uid =
     order_by_sent_at_desc
       (map (\<lambda>m. \<lparr>row_message = m, joined = receiver_columns d m @ content_columns d m\<rparr>)
          (filter (\<lambda>m. sender_id m = uid \<and> \<not> is_deleted_by_sender m) (messages d)))"

definition inbox_error :: "string \<Rightarrow> reply" where
  "inbox_error err =
     (Some (''Error loading messages: '' @ err, ''error''),
      Render ''messages/inbox.html''
        [(''received_messages'', Rows []), (''sent_messages'', Rows [])])"

definition inbox :: "env \<Rightarrow> db \<Rightarrow> reply" where
  "inbox e d =
     (if \<not> connects e 0 then
        (db_connection_error, Render ''messages/inbox.html'' [(''messages'', Rows [])])
      else case raises e 0 of
        Some err \<Rightarrow> inbox_error err
      | None \<Rightarrow>
         (case raises e 1 of
            Some err \<Rightarrow> inbox_error err
          | None \<Rightarrow>
             (None, Render ''messages/inbox.html''
                [(''received_messages'', Rows (received_messages d (session_user_id e))),
                 (''sent_messages'', Rows (sent_messages d (session_user_id e))),
                 (''unread_count'',
                  Num (get_unread_count (connects e 1) (raises e 2) d
                         (session_user_id e)))])))"

subsection \<open>reply_message\<close>

datatype http_method = GET | POST

definition reply_form :: "db \<Rightarrow> message \<Rightarrow> response" where
  "reply_form d original =
     Render ''messages/reply.html''
       [(''original_message'',
         Row \<lparr>row_message = original, joined = sender_columns d original\<rparr>)]"

text \<open>
  \<open>form_content\<close> is the form field \<^verbatim>\<open>content\<close>, \<open>None\<close> when the form has none.
  When the first query raises, the handler's \<^verbatim>\<open>except\<close> block flashes and then
  reads \<^verbatim>\<open>original_message\<close>, which is not bound yet: that error leaves the
  handler.
\<close>

definition reply_message :: "env \<Rightarrow> db \<Rightarrow> int \<Rightarrow> http_method \<Rightarrow> string option \<Rightarrow> reply \<times> db" where
  "reply_message e d message_id method form_content =
     (if \<not> connects e 0 then ((db_connection_error, Redirect ''messages.inbox''), d)
      else case raises e 0 of
        Some err \<Rightarrow>
          ((Some (''Error sending reply: '' @ err, ''error''),
            Unhandled ''UnboundLocalError''), d)
      | None \<Rightarrow>
         (case find (\<lambda>m. msg_id m = message_id \<and> receiver_id m = session_user_id e \<and>
                           \<not> is_deleted_by_receiver m) (messages d) of
            None \<Rightarrow> ((not_found_or_denied, Redirect ''messages.inbox''), d)
          | Some original_message \<Rightarrow>
             if method = GET then ((None, reply_form d original_message), d)
             else
               (let content = strip (case form_content of None \<Rightarrow> [] | Some c \<Rightarrow> c) in
                if content = [] then
                  ((Some (''Message content is required.'', ''error''),
                    reply_form d original_message), d)
                else case raises e 1 of
                  Some err \<Rightarrow>
                    ((Some (''Error sending reply: '' @ err, ''error''),
                      reply_form d original_message), d)
                | None \<Rightarrow>
                    ((Some (''Reply sent successfully!'', ''success''),
                      Redirect ''messages.inbox''),
                     insert_message d (session_user_id e) (sender_id original_message)
                       (''Re: '' @ subject original_message) content ''personal''
                       (Some message_id) None None (now e 0)))))"

subsection \<open>delete_message\<close>

definition json_failure :: "string \<Rightarrow> nat \<Rightarrow> reply" where
  "json_failure err status =
     (None, Jsonify [(''success'', JBool False), (''error'', JStr err)] status)"

definition delete_message :: "env \<Rightarrow> db \<Rightarrow> int \<Rightarrow> reply \<times> db" where
  "delete_message e d message_id =
     (if \<not> connects e 0 then (json_failure ''Database connection error'' 200, d)
      else case raises e 0 of
        Some err \<Rightarrow> (json_failure err 200, d)
      | None \<Rightarrow>
         (case find (\<lambda>m. msg_id m = message_id) (messages d) of
            None \<Rightarrow> (json_failure ''Message not found'' 200, d)
          | Some message \<Rightarrow>
             if sender_id message = session_user_id e then
               (case raises e 1 of
                  Some err \<Rightarrow> (json_failure err 200, d)
                | None \<Rightarrow>
                   ((None, Jsonify [(''success'', JBool True)] 200),
                    update_messages (\<lambda>m. msg_id m = message_id)
                      (\<lambda>m. m\<lparr>is_deleted_by_sender := True\<rparr>) d))
             else if receiver_id message = session_user_id e then
               (case raises e 1 of
                  Some err \<Rightarrow> (json_failure err 200, d)
                | None \<Rightarrow>
                   ((None, Jsonify [(''success'', JBool True)] 200),
                    update_messages (\<lambda>m. msg_id m = message_id)
                      (\<lambda>m. m\<lparr>is_deleted_by_receiver := True\<rparr>) d))
             else (json_failure ''Access denied'' 200, d)))"

subsection \<open>Publication requests: check_publication_request and send_message\<close>

definition publication_requests :: "db \<Rightarrow> int \<Rightarrow> int \<Rightarrow> int \<Rightarrow> message list" where
  "publication_requests d sender receiver content_id =
     filter (\<lambda>m. sender_id m = sender \<and> receiver_id m = receiver \<and>
                 related_content_id m = Some content_id \<and>
                 like_publication_request (subject m) \<and>
                 \<not> is_deleted_by_sender m \<and> \<not> is_deleted_by_receiver m) (messages d)"


text \<open>
  Python's truth value of an id taken from the JSON body: absent, \<^verbatim>\<open>null\<close> and 0
  are false.
\<close>

fun truthy :: "int option \<Rightarrow> bool" where
  "truthy None = False"
| "truthy (Some n) = (n \<noteq> 0)"

definition duplicate_request_error :: string where
  "duplicate_request_error =
     ''You have already sent a publication request for this content. Please wait for admin review.''"

text \<open>
  \<open>k\<close> is the number of statements the request has executed before the insert.
\<close>

definition send_insert ::
  "env \<Rightarrow> db \<Rightarrow> nat \<Rightarrow> int \<Rightarrow> string \<Rightarrow> string \<Rightarrow> int option \<Rightarrow> reply \<times> db" where
  "send_insert e d k receiver subj body rel_content =
     (case raises e k of
        Some err \<Rightarrow> (json_failure err 500, d)
      | None \<Rightarrow>
          ((None, Jsonify [(''success'', JBool True),
                           (''message'', JStr ''Message sent successfully'')] 200),
           insert_message d (session_user_id e) receiver subj body ''personal'' None
             rel_content None (now e 0)))"

text \<open>
  The arguments are the fields of the JSON body: \<^verbatim>\<open>receiver_id\<close> and
  \<^verbatim>\<open>related_content_id\<close> as numbers (\<open>None\<close> when absent or \<^verbatim>\<open>null\<close>),
  \<^verbatim>\<open>subject\<close> and \<^verbatim>\<open>content\<close> as strings (empty when absent).
\<close>

definition send_message ::
  "env \<Rightarrow> db \<Rightarrow> int option \<Rightarrow> string \<Rightarrow> string \<Rightarrow> int option \<Rightarrow> reply \<times> db" where
  "send_message e d receiver_id_arg subject_arg content_arg related_content_id_arg =
     (let subj = strip subject_arg; body = strip content_arg in
      if \<not> truthy receiver_id_arg \<or> subj = [] \<or> body = [] then
        (json_failure ''All fields are required'' 400, d)
      else if \<not> connects e 0 then (json_failure ''Database connection error'' 200, d)
      else if str_in ''Publication Request'' subj \<and> truthy related_content_id_arg then
        (case raises e 0 of
           Some err \<Rightarrow> (json_failure err 500, d)
         | None \<Rightarrow>
            if length (publication_requests d (session_user_id e) (the receiver_id_arg)
                         (the related_content_id_arg)) > 0
            then (json_failure duplicate_request_error 400, d)
            else send_insert e d 1 (the receiver_id_arg) subj body related_content_id_arg)
      else send_insert e d 0 (the receiver_id_arg) subj body related_content_id_arg)"

subsection \<open>update_notification_settings\<close>

definition notification_types :: "string list" where
  "notification_types =
     [''new_message'', ''message_reply'', ''system_announcement'', ''content_feedback'']"

text \<open>
  One pass of the loop body: the two flags are read from the form and the statement
  \<^verbatim>\<open>UPDATE message_notifications SET ... WHERE user_id = ? AND notification_type = ?\<close>
  runs. \<open>k\<close> counts the passes made so far.
\<close>

definition update_notification ::
  "env \<Rightarrow> (string \<rightharpoonup> string) \<Rightarrow> nat \<Rightarrow> string \<Rightarrow> notification list \<Rightarrow> notification list" where
  "update_notification e form k ntype rs =
     map (\<lambda>r. if user_id r = session_user_id e \<and> notification_type r = ntype
              then r\<lparr>is_enabled := (form (ntype @ ''_enabled'') = Some ''on''),
                     email_enabled := (form (ntype @ ''_email'') = Some ''on''),
                     updated_at := now e k\<rparr>
              else r) rs"

fun update_loop ::
  "env \<Rightarrow> (string \<rightharpoonup> string) \<Rightarrow> nat \<Rightarrow> string list \<Rightarrow> notification list
     \<Rightarrow> string + notification list" where
  "update_loop e form k [] rs = Inr rs"
| "update_loop e form k (ntype # rest) rs =
     (case raises e k of
        Some err \<Rightarrow> Inl err
      | None \<Rightarrow> update_loop e form (k + 1) rest (update_notification e form k ntype rs))"

definition update_notification_settings ::
  "env \<Rightarrow> db \<Rightarrow> (string \<rightharpoonup> string) \<Rightarrow> reply \<times> db" where
  "update_notification_settings e d form =
     (if \<not> connects e 0 then
        ((db_connection_error, Redirect ''messages.notification_settings''), d)
      else case update_loop e form 0 notification_types (message_notifications d) of
        Inl err \<Rightarrow>
          ((Some (''Error updating settings: '' @ err, ''error''),
            Redirect ''messages.notification_settings''), d)
      | Inr rs \<Rightarrow>
          ((Some (''Notification settings updated successfully!'', ''success''),
            Redirect ''messages.notification_settings''),
           d\<lparr>message_notifications := rs\<rparr>))"

subsection \<open>send_system_message\<close>

definition send_system_message ::
  "env \<Rightarrow> db \<Rightarrow> int \<Rightarrow> string \<Rightarrow> string \<Rightarrow> string \<Rightarrow> int option \<Rightarrow> int option \<Rightarrow> bool \<times> db" where
  "send_system_message e d receiver subj body mtype rel_content rel_user =
     (if \<not> connects e 0 then (False, d)
      else case raises e 0 of
        Some err \<Rightarrow> (False, d)
      | None \<Rightarrow>
          (True, insert_message d 1 receiver subj body mtype None rel_content rel_user
                   (now e 0)))"

subsection \<open>Example requests and stores\<close>

text \<open>A request of user \<open>uid\<close> made at time \<open>t\<close>, during which the store does not fail.\<close>

definition request_by :: "int \<Rightarrow> timestamp \<Rightarrow> env" where
  "request_by uid t =
     \<lparr>session_user_id = uid, now = (\<lambda>k. t + k), connects = (\<lambda>k. True),
      raises = (\<lambda>k. None)\<rparr>"

definition empty_db :: db where
  "empty_db = \<lparr>messages = [], users = Map.empty, content_title = Map.empty,
               message_notifications = []\<rparr>"

text \<open>The message of the spec's scenario: user 5 writes "Hello" to user 8.\<close>

definition hello :: message where
  "hello = \<lparr>msg_id = 1, sender_id = 5, receiver_id = 8, subject = ''Hello'',
            content = ''Hi there'', message_type = ''personal'', parent_message_id = None,
            related_content_id = None, related_user_id = None, sent_at = 3,
            is_read = False, read_at = None, is_deleted_by_sender = False,
            is_deleted_by_receiver = False\<rparr>"

definition hello_db :: db where
  "hello_db = empty_db\<lparr>messages := [hello]\<rparr>"

text \<open>A thread of three messages between users 5 and 8; the sender has deleted the third.\<close>

definition thanks :: message where
  "thanks = \<lparr>msg_id = 2, sender_id = 8, receiver_id = 5, subject = ''Re: Hello'',
             content = ''Thanks'', message_type = ''personal'', parent_message_id = Some 1,
             related_content_id = None, related_user_id = None, sent_at = 7,
             is_read = False, read_at = None, is_deleted_by_sender = False,
             is_deleted_by_receiver = False\<rparr>"

definition withdrawn :: message where
  "withdrawn = \<lparr>msg_id = 3, sender_id = 5, receiver_id = 8, subject = ''Again'',
             content = ''Hello again'', message_type = ''personal'', parent_message_id = None,
             related_content_id = None, related_user_id = None, sent_at = 9,
             is_read = False, read_at = None, is_deleted_by_sender = True,
             is_deleted_by_receiver = False\<rparr>"

definition thread_db :: db where
  "thread_db = empty_db\<lparr>messages := [hello, thanks, withdrawn]\<rparr>"

text \<open>A publication request of user 5 to the admin (user 1) for content 3.\<close>

definition request3 :: message where
  "request3 = \<lparr>msg_id = 1, sender_id = 5, receiver_id = 1,
      subject = ''Publication Request: Unit 3'', content = ''Please publish'',
      message_type = ''personal'', parent_message_id = None, related_content_id = Some 3,
      related_user_id = None, sent_at = 4, is_read = False, read_at = None,
      is_deleted_by_sender = False, is_deleted_by_receiver = False\<rparr>"

definition request3_db :: db where
  "request3_db = empty_db\<lparr>messages := [request3]\<rparr>"



text \<open>A system message to user 5 about content 3.\<close>

definition notice :: message where
  "notice = \<lparr>msg_id = 2, sender_id = 1, receiver_id = 5,
      subject = ''Publication Request approved'', content = ''Unit 3 is published'',
      message_type = ''system'', parent_message_id = None, related_content_id = Some 3,
      related_user_id = None, sent_at = 6, is_read = False, read_at = None,
      is_deleted_by_sender = False, is_deleted_by_receiver = False\<rparr>"

text \<open>Notification rows of users 5 and 8, and a submitted settings form.\<close>

definition settings :: "notification list" where
  "settings =
     [\<lparr>user_id = 5, notification_type = ''new_message'', is_enabled = False,
       email_enabled = True, updated_at = 1\<rparr>,
      \<lparr>user_id = 8, notification_type = ''new_message'', is_enabled = False,
       email_enabled = False, updated_at = 1\<rparr>,
      \<lparr>user_id = 5, notification_type = ''content_feedback'', is_enabled = True,
       email_enabled = True, updated_at = 2\<rparr>]"

definition settings_form :: "string \<rightharpoonup> string" where
  "settings_form =
     [''new_message_enabled'' \<mapsto> ''on'', ''message_reply_enabled'' \<mapsto> ''on'',
      ''message_reply_email'' \<mapsto> ''on'']"


section \<open>Properties\<close>

subsection \<open>Rows and their primary key\<close>

lemma find_by_id:
  "distinct (map msg_id ms) \<Longrightarrow> m \<in> set ms \<Longrightarrow>
   find (\<lambda>x. msg_id x = msg_id m \<and> Q x) ms = (if Q m then Some m else None)"
  by (induction ms) (auto simp: find_None_iff image_iff)

lemma find_id_only:
  "distinct (map msg_id ms) \<Longrightarrow> m \<in> set ms \<Longrightarrow>
   find (\<lambda>x. msg_id x = msg_id m) ms = Some m"
  using find_by_id[of ms m "\<lambda>x. True"] by simp

lemma update_by_id:
  assumes "distinct (map msg_id ms)" and "m \<in> set ms"
  shows "map (\<lambda>x. if msg_id x = msg_id m then f x else x) ms =
         map (\<lambda>x. if x = m then f m else x) ms"
proof (rule map_cong[OF refl])
  fix x assume "x \<in> set ms"
  with assms have "msg_id x = msg_id m \<longleftrightarrow> x = m"
    by (meson distinct_map inj_on_eq_iff)
  then show "(if msg_id x = msg_id m then f x else x) = (if x = m then f m else x)"
    by auto
qed

lemma ids_after_row_update:
  "msg_id m' = msg_id m \<Longrightarrow>
   map msg_id (map (\<lambda>x. if x = m then m' else x) ms) = map msg_id ms"
  by (induction ms) simp_all

text \<open>
  The primary key is an invariant of the store: an inserted row gets a fresh id, no
  update changes an id, and so every handler keeps the ids distinct.
\<close>

lemma next_id_fresh: "next_id ms \<notin> set (map msg_id ms)"
proof
  assume "next_id ms \<in> set (map msg_id ms)"
  then have "next_id ms \<le> Max (set (0 # map msg_id ms))"
    by (intro Max_ge) simp_all
  also have "\<dots> = fold max (map msg_id ms) 0"
    by (rule Max.set_eq_fold)
  finally show False by (simp add: next_id_def)
qed

lemma wf_db_insert_message:
  "wf_db d \<Longrightarrow>
   wf_db (insert_message d sender receiver subj body mtype parent rel_content rel_user sent)"
  using next_id_fresh[of "messages d"] by (simp add: wf_db_def insert_message_def)

lemma wf_db_update_messages:
  assumes "\<And>x. msg_id (upd x) = msg_id x"
  shows "wf_db (update_messages c upd d) = wf_db d"
proof -
  have "(msg_id \<circ> (\<lambda>m. if c m then upd m else m)) = msg_id"
    by (rule ext) (simp add: assms)
  then show ?thesis unfolding wf_db_def update_messages_def by simp
qed

lemma wf_db_view_message: "wf_db d \<Longrightarrow> wf_db (snd (view_message e d mid))"
  by (simp add: view_message_def wf_db_update_messages split: option.split)

lemma wf_db_mark_as_read: "wf_db d \<Longrightarrow> wf_db (snd (mark_as_read e d mid))"
  by (simp add: mark_as_read_def Let_def wf_db_update_messages split: option.split)

lemma wf_db_delete_message: "wf_db d \<Longrightarrow> wf_db (snd (delete_message e d mid))"
  by (simp add: delete_message_def wf_db_update_messages split: option.split)

lemma wf_db_reply_message: "wf_db d \<Longrightarrow> wf_db (snd (reply_message e d mid meth fc))"
  by (simp add: reply_message_def Let_def wf_db_insert_message split: option.split)

lemma wf_db_send_message: "wf_db d \<Longrightarrow> wf_db (snd (send_message e d r s b c))"
  by (simp add: send_message_def send_insert_def Let_def wf_db_insert_message
      split: option.split)

lemma wf_db_send_system_message:
  "wf_db d \<Longrightarrow> wf_db (snd (send_system_message e d r s b t rc ru))"
  by (simp add: send_system_message_def wf_db_insert_message split: option.split)

lemma wf_db_update_notification_settings:
  "wf_db d \<Longrightarrow> wf_db (snd (update_notification_settings e d form))"
  by (simp add: update_notification_settings_def wf_db_def split: sum.split)

subsection \<open>Viewing a message\<close>

text \<open>
  What a successful view by the receiver does to the store: nothing when the message
  is already read, and otherwise it changes the one row of the message.
\<close>

lemma view_message_as_receiver:
  assumes wf: "wf_db d" and m: "m \<in> set (messages d)"
    and ok: "connects e 0" "raises e 0 = None" "raises e 1 = None"
    and recv: "receiver_id m = session_user_id e"
    and vis: "visible_to (session_user_id e) m"
  shows "snd (view_message e d (msg_id m)) =
         (if is_read m then d
          else d\<lparr>messages :=
                   map (\<lambda>x. if x = m then m\<lparr>is_read := True, read_at := Some (now e 0)\<rparr>
                            else x) (messages d)\<rparr>)"
proof -
  have ids: "distinct (map msg_id (messages d))"
    using wf by (simp add: wf_db_def)
  have f: "find (\<lambda>x. msg_id x = msg_id m \<and> visible_to (session_user_id e) x) (messages d)
           = Some m"
    using find_by_id[OF ids m, of "visible_to (session_user_id e)"] vis by simp
  have u: "map (\<lambda>x. if msg_id x = msg_id m
                     then x\<lparr>is_read := True, read_at := Some (now e 0)\<rparr> else x)
             (messages d) =
           map (\<lambda>x. if x = m then m\<lparr>is_read := True, read_at := Some (now e 0)\<rparr> else x)
             (messages d)"
    by (rule update_by_id[OF ids m])
  show ?thesis
  proof (cases "is_read m")
    case True
    then show ?thesis using ok recv f by (simp add: view_message_def)
  next
    case False
    have "snd (view_message e d (msg_id m)) =
          update_messages (\<lambda>x. msg_id x = msg_id m)
            (\<lambda>x. x\<lparr>is_read := True, read_at := Some (now e 0)\<rparr>) d"
      using ok recv f False by (simp add: view_message_def)
    also have "\<dots> = d\<lparr>messages :=
                 map (\<lambda>x. if x = m then m\<lparr>is_read := True, read_at := Some (now e 0)\<rparr>
                          else x) (messages d)\<rparr>"
      unfolding update_messages_def u ..
    finally show ?thesis using False by simp
  qed
qed

text \<open>
  C4. When the receiver views an unread message that is visible to them, the view
  marks the one row of the message read and stamps \<^verbatim>\<open>read_at\<close> with the time of
  that view; a second view by the receiver, at any later time, leaves the store as the
  first view left it, so the message is still read and \<^verbatim>\<open>read_at\<close> is still the
  time of the first view.
\<close>

theorem view_message_read_once:
  assumes wf: "wf_db d" and m: "m \<in> set (messages d)"
    and ok1: "connects e1 0" "raises e1 0 = None" "raises e1 1 = None"
    and ok2: "connects e2 0" "raises e2 0 = None" "raises e2 1 = None"
    and same: "session_user_id e2 = session_user_id e1"
    and recv: "receiver_id m = session_user_id e1"
    and vis: "visible_to (session_user_id e1) m"
    and unread: "\<not> is_read m"
  shows "messages (snd (view_message e1 d (msg_id m))) =
           map (\<lambda>x. if x = m then m\<lparr>is_read := True, read_at := Some (now e1 0)\<rparr> else x)
             (messages d) \<and>
         snd (view_message e2 (snd (view_message e1 d (msg_id m))) (msg_id m)) =
           snd (view_message e1 d (msg_id m)) \<and>
         find (\<lambda>x. msg_id x = msg_id m)
           (messages (snd (view_message e2 (snd (view_message e1 d (msg_id m))) (msg_id m))))
           = Some (m\<lparr>is_read := True, read_at := Some (now e1 0)\<rparr>)"
proof -
  let ?m' = "m\<lparr>is_read := True, read_at := Some (now e1 0)\<rparr>"
  let ?d1 = "snd (view_message e1 d (msg_id m))"
  have d1: "?d1 = d\<lparr>messages := map (\<lambda>x. if x = m then ?m' else x) (messages d)\<rparr>"
    using view_message_as_receiver[OF wf m ok1 recv vis] unread by simp
  have msgs1: "messages ?d1 = map (\<lambda>x. if x = m then ?m' else x) (messages d)"
    by (simp add: d1)
  have "map msg_id (messages ?d1) = map msg_id (messages d)"
    unfolding msgs1 by (rule ids_after_row_update) simp
  then have wf1: "wf_db ?d1" using wf by (simp add: wf_db_def)
  have m1: "?m' \<in> set (messages ?d1)"
    unfolding msgs1 using m by (simp add: image_iff)
  have vis1: "visible_to (session_user_id e2) ?m'"
    using vis same by (simp add: visible_to_def)
  have recv1: "receiver_id ?m' = session_user_id e2" using recv same by simp
  have "snd (view_message e2 ?d1 (msg_id ?m')) = (if is_read ?m' then ?d1 else undefined)"
    using view_message_as_receiver[OF wf1 m1 ok2 recv1 vis1] by simp
  then have d2: "snd (view_message e2 ?d1 (msg_id m)) = ?d1" by simp
  have "find (\<lambda>x. msg_id x = msg_id ?m') (messages ?d1) = Some ?m'"
    using wf1 m1 by (intro find_id_only) (simp_all add: wf_db_def)
  then have f: "find (\<lambda>x. msg_id x = msg_id m) (messages ?d1) = Some ?m'" by simp
  show ?thesis unfolding d2 using msgs1 f by simp
qed

theorem view_message_read_once_witness:
  "wf_db hello_db \<and> hello \<in> set (messages hello_db) \<and> \<not> is_read hello \<and>
   receiver_id hello = session_user_id (request_by 8 10) \<and>
   messages (snd (view_message (request_by 8 10) hello_db 1)) =
     [hello\<lparr>is_read := True, read_at := Some 10\<rparr>] \<and>
   snd (view_message (request_by 8 20) (snd (view_message (request_by 8 10) hello_db 1)) 1) =
     snd (view_message (request_by 8 10) hello_db 1)"
  using view_message_read_once[of hello_db hello "request_by 8 10" "request_by 8 20"]
  by (simp add: wf_db_def hello_db_def empty_db_def hello_def request_by_def visible_to_def)

subsection \<open>Marking a message read\<close>

text \<open>
  C1. The claim is that \<^verbatim>\<open>read_at\<close>, once stamped, is never changed, also not by
  repeated POSTs to the mark-read endpoint. The endpoint's update has no
  \<^verbatim>\<open>is_read\<close> guard (the one \<^verbatim>\<open>view_message\<close> has): user 8 views the message
  at time 10, which stamps \<^verbatim>\<open>read_at\<close> with 10, and then posts to mark-read at
  time 20, which stamps it again, with 20.
\<close>

theorem mark_as_read_restamps_read_at:
  "map read_at (messages (snd (view_message (request_by 8 10) hello_db 1))) = [Some 10] \<and>
   map read_at (messages (snd (mark_as_read (request_by 8 20)
      (snd (view_message (request_by 8 10) hello_db 1)) 1))) = [Some 20] \<and>
   map is_read (messages (snd (mark_as_read (request_by 8 20)
      (snd (view_message (request_by 8 10) hello_db 1)) 1))) = [True]"
  by (simp add: Let_def view_message_def mark_as_read_def request_by_def hello_db_def
      empty_db_def hello_def visible_to_def update_messages_def)

subsection \<open>The inbox\<close>

lemma order_by_sent_at_desc_sorted:
  "sorted_wrt (\<lambda>a b. a \<ge> b) (map (\<lambda>r. sent_at (row_message r)) (order_by_sent_at_desc rs))"
proof -
  have "sorted (map (\<lambda>r. sent_at (row_message r)) (sort_key (\<lambda>r. sent_at (row_message r)) rs))"
    by (rule sorted_sort_key)
  then show ?thesis
    by (simp add: order_by_sent_at_desc_def rev_map[symmetric] sorted_wrt_rev)
qed

lemma order_by_sent_at_desc_mset: "mset (order_by_sent_at_desc rs) = mset rs"
  by (simp add: order_by_sent_at_desc_def)

lemma received_messages_mset:
  "mset (map row_message (received_messages d uid)) =
   mset (filter (\<lambda>m. receiver_id m = uid \<and> \<not> is_deleted_by_receiver m) (messages d))"
proof -
  have "mset (map row_message (received_messages d uid)) =
        image_mset row_message (mset (received_messages d uid))" by simp
  also have "\<dots> = image_mset row_message (mset (map (\<lambda>m. \<lparr>row_message = m, joined = sender_columns d m @ content_columns d m\<rparr>)
          (filter (\<lambda>m. receiver_id m = uid \<and> \<not> is_deleted_by_receiver m) (messages d))))"
    unfolding received_messages_def order_by_sent_at_desc_mset ..
  also have "\<dots> = mset (filter (\<lambda>m. receiver_id m = uid \<and> \<not> is_deleted_by_receiver m) (messages d))"
    by (simp add: multiset.map_comp o_def)
  finally show ?thesis .
qed

lemma sent_messages_mset:
  "mset (map row_message (sent_messages d uid)) =
   mset (filter (\<lambda>m. sender_id m = uid \<and> \<not> is_deleted_by_sender m) (messages d))"
proof -
  have "mset (map row_message (sent_messages d uid)) =
        image_mset row_message (mset (sent_messages d uid))" by simp
  also have "\<dots> = image_mset row_message (mset (map (\<lambda>m. \<lparr>row_message = m, joined = receiver_columns d m @ content_columns d m\<rparr>)
          (filter (\<lambda>m. sender_id m = uid \<and> \<not> is_deleted_by_sender m) (messages d))))"
    unfolding sent_messages_def order_by_sent_at_desc_mset ..
  also have "\<dots> = mset (filter (\<lambda>m. sender_id m = uid \<and> \<not> is_deleted_by_sender m) (messages d))"
    by (simp add: multiset.map_comp o_def)
  finally show ?thesis .
qed

text \<open>
  C7. When the store answers, the inbox page of a user shows two sequences, each in
  descending order of \<^verbatim>\<open>sent_at\<close>: the received rows are exactly the messages
  whose receiver is the user and that the receiver has not deleted, the sent rows
  exactly the messages whose sender is the user and that the sender has not deleted.
  A message that only the other party has deleted is still listed.
\<close>

theorem inbox_listing:
  assumes ok: "connects e 0" "raises e 0 = None" "raises e 1 = None"
  shows "inbox e d =
           (None, Render ''messages/inbox.html''
              [(''received_messages'', Rows (received_messages d (session_user_id e))),
               (''sent_messages'', Rows (sent_messages d (session_user_id e))),
               (''unread_count'',
                Num (get_unread_count (connects e 1) (raises e 2) d (session_user_id e)))]) \<and>
         sorted_wrt (\<lambda>a b. a \<ge> b)
           (map (\<lambda>r. sent_at (row_message r)) (received_messages d (session_user_id e))) \<and>
         sorted_wrt (\<lambda>a b. a \<ge> b)
           (map (\<lambda>r. sent_at (row_message r)) (sent_messages d (session_user_id e))) \<and>
         mset (map row_message (received_messages d (session_user_id e))) =
           mset (filter (\<lambda>m. receiver_id m = session_user_id e \<and> \<not> is_deleted_by_receiver m)
                   (messages d)) \<and>
         mset (map row_message (sent_messages d (session_user_id e))) =
           mset (filter (\<lambda>m. sender_id m = session_user_id e \<and> \<not> is_deleted_by_sender m)
                   (messages d)) \<and>
         (\<forall>m \<in> set (messages d).
            receiver_id m = session_user_id e \<and> is_deleted_by_sender m \<and>
            \<not> is_deleted_by_receiver m \<longrightarrow>
            m \<in> set (map row_message (received_messages d (session_user_id e)))) \<and>
         (\<forall>m \<in> set (messages d).
            sender_id m = session_user_id e \<and> is_deleted_by_receiver m \<and>
            \<not> is_deleted_by_sender m \<longrightarrow>
            m \<in> set (map row_message (sent_messages d (session_user_id e))))"
proof -
  let ?u = "session_user_id e"
  have page: "inbox e d =
           (None, Render ''messages/inbox.html''
              [(''received_messages'', Rows (received_messages d ?u)),
               (''sent_messages'', Rows (sent_messages d ?u)),
               (''unread_count'',
                Num (get_unread_count (connects e 1) (raises e 2) d ?u))])"
    using ok by (simp add: inbox_def)
  have r_sorted: "sorted_wrt (\<lambda>a b. a \<ge> b) (map (\<lambda>r. sent_at (row_message r)) (received_messages d ?u))"
    unfolding received_messages_def by (rule order_by_sent_at_desc_sorted)
  have s_sorted: "sorted_wrt (\<lambda>a b. a \<ge> b) (map (\<lambda>r. sent_at (row_message r)) (sent_messages d ?u))"
    unfolding sent_messages_def by (rule order_by_sent_at_desc_sorted)
  have r_set: "set (map row_message (received_messages d ?u)) =
               {m \<in> set (messages d). receiver_id m = ?u \<and> \<not> is_deleted_by_receiver m}"
    using arg_cong[OF received_messages_mset[of d ?u], of set_mset] by simp
  have s_set: "set (map row_message (sent_messages d ?u)) =
               {m \<in> set (messages d). sender_id m = ?u \<and> \<not> is_deleted_by_sender m}"
    using arg_cong[OF sent_messages_mset[of d ?u], of set_mset] by simp
  have r_other: "\<forall>m \<in> set (messages d).
            receiver_id m = ?u \<and> is_deleted_by_sender m \<and> \<not> is_deleted_by_receiver m \<longrightarrow>
            m \<in> set (map row_message (received_messages d ?u))"
    unfolding r_set by simp
  have s_other: "\<forall>m \<in> set (messages d).
            sender_id m = ?u \<and> is_deleted_by_receiver m \<and> \<not> is_deleted_by_sender m \<longrightarrow>
            m \<in> set (map row_message (sent_messages d ?u))"
    unfolding s_set by simp
  show ?thesis
    using page r_sorted s_sorted received_messages_mset[of d ?u] sent_messages_mset[of d ?u]
      r_other s_other
    by (intro conjI)
qed

theorem inbox_listing_witness:
  "connects (request_by 8 10) 0 \<and> raises (request_by 8 10) 0 = None \<and>
   raises (request_by 8 10) 1 = None \<and>
   map row_message (received_messages thread_db 8) = [withdrawn, hello] \<and>
   map row_message (sent_messages thread_db 8) = [thanks] \<and>
   map row_message (sent_messages thread_db 5) = [hello] \<and>
   fst (inbox (request_by 8 10) thread_db) = None"
  using inbox_listing[of "request_by 8 10" thread_db]
  by (simp add: request_by_def thread_db_def empty_db_def hello_def thanks_def withdrawn_def
      received_messages_def sent_messages_def order_by_sent_at_desc_def)

subsection \<open>Deleting a message\<close>

text \<open>What the delete operation does once the message with the id is found.\<close>

lemma delete_message_found:
  assumes wf: "wf_db d" and m: "m \<in> set (messages d)"
    and ok: "connects e 0" "raises e 0 = None"
  shows "delete_message e d (msg_id m) =
         (if sender_id m = session_user_id e then
            (case raises e 1 of
               Some err \<Rightarrow> (json_failure err 200, d)
             | None \<Rightarrow>
                ((None, Jsonify [(''success'', JBool True)] 200),
                 d\<lparr>messages := map (\<lambda>x. if x = m then m\<lparr>is_deleted_by_sender := True\<rparr> else x)
                                  (messages d)\<rparr>))
          else if receiver_id m = session_user_id e then
            (case raises e 1 of
               Some err \<Rightarrow> (json_failure err 200, d)
             | None \<Rightarrow>
                ((None, Jsonify [(''success'', JBool True)] 200),
                 d\<lparr>messages := map (\<lambda>x. if x = m then m\<lparr>is_deleted_by_receiver := True\<rparr> else x)
                                  (messages d)\<rparr>))
          else (json_failure ''Access denied'' 200, d))"
proof -
  have ids: "distinct (map msg_id (messages d))"
    using wf by (simp add: wf_db_def)
  have f: "find (\<lambda>x. msg_id x = msg_id m) (messages d) = Some m"
    by (rule find_id_only[OF ids m])
  have us: "update_messages (\<lambda>x. msg_id x = msg_id m) (\<lambda>x. x\<lparr>is_deleted_by_sender := True\<rparr>) d =
            d\<lparr>messages := map (\<lambda>x. if x = m then m\<lparr>is_deleted_by_sender := True\<rparr> else x)
                             (messages d)\<rparr>"
    unfolding update_messages_def
    update_by_id[OF ids m, of "\<lambda>x. x\<lparr>is_deleted_by_sender := True\<rparr>"] ..
  have ur: "update_messages (\<lambda>x. msg_id x = msg_id m) (\<lambda>x. x\<lparr>is_deleted_by_receiver := True\<rparr>) d =
            d\<lparr>messages := map (\<lambda>x. if x = m then m\<lparr>is_deleted_by_receiver := True\<rparr> else x)
                             (messages d)\<rparr>"
    unfolding update_messages_def
    update_by_id[OF ids m, of "\<lambda>x. x\<lparr>is_deleted_by_receiver := True\<rparr>"] ..
  have "delete_message e d (msg_id m) =
         (if sender_id m = session_user_id e then
            (case raises e 1 of
               Some err \<Rightarrow> (json_failure err 200, d)
             | None \<Rightarrow>
                ((None, Jsonify [(''success'', JBool True)] 200),
                 update_messages (\<lambda>x. msg_id x = msg_id m) (\<lambda>x. x\<lparr>is_deleted_by_sender := True\<rparr>) d))
          else if receiver_id m = session_user_id e then
            (case raises e 1 of
               Some err \<Rightarrow> (json_failure err 200, d)
             | None \<Rightarrow>
                ((None, Jsonify [(''success'', JBool True)] 200),
                 update_messages (\<lambda>x. msg_id x = msg_id m) (\<lambda>x. x\<lparr>is_deleted_by_receiver := True\<rparr>) d))
          else (json_failure ''Access denied'' 200, d))"
    unfolding delete_message_def using ok f by simp
  then show ?thesis unfolding us ur .
qed

text \<open>
  C6. When the store answers, deleting a message sets exactly one deletion flag of
  exactly that message: \<^verbatim>\<open>is_deleted_by_sender\<close> when the requester is the sender
  (the code tests the sender first, so also when the requester is both parties),
  \<^verbatim>\<open>is_deleted_by_receiver\<close> when the requester is the receiver and not the sender.
  The other flag, every other field of the message and every other row are as before.
  A requester who is neither party gets "Access denied" and the store is unchanged.
\<close>

theorem delete_message_flags:
  assumes wf: "wf_db d" and m: "m \<in> set (messages d)"
    and ok: "connects e 0" "raises e 0 = None" "raises e 1 = None"
  shows "(sender_id m = session_user_id e \<longrightarrow>
            delete_message e d (msg_id m) =
              ((None, Jsonify [(''success'', JBool True)] 200),
               d\<lparr>messages := map (\<lambda>x. if x = m then m\<lparr>is_deleted_by_sender := True\<rparr> else x)
                                (messages d)\<rparr>)) \<and>
         (sender_id m \<noteq> session_user_id e \<and> receiver_id m = session_user_id e \<longrightarrow>
            delete_message e d (msg_id m) =
              ((None, Jsonify [(''success'', JBool True)] 200),
               d\<lparr>messages := map (\<lambda>x. if x = m then m\<lparr>is_deleted_by_receiver := True\<rparr> else x)
                                (messages d)\<rparr>)) \<and>
         (sender_id m \<noteq> session_user_id e \<and> receiver_id m \<noteq> session_user_id e \<longrightarrow>
            delete_message e d (msg_id m) = (json_failure ''Access denied'' 200, d))"
  unfolding delete_message_found[OF wf m ok(1,2)] using ok(3) by simp

theorem delete_message_flags_witness:
  "wf_db thread_db \<and> hello \<in> set (messages thread_db) \<and>
   messages (snd (delete_message (request_by 5 10) thread_db 1)) =
     [hello\<lparr>is_deleted_by_sender := True\<rparr>, thanks, withdrawn] \<and>
   messages (snd (delete_message (request_by 8 10) thread_db 1)) =
     [hello\<lparr>is_deleted_by_receiver := True\<rparr>, thanks, withdrawn] \<and>
   delete_message (request_by 9 10) thread_db 1 = (json_failure ''Access denied'' 200, thread_db)"
  using delete_message_flags[of thread_db hello "request_by 5 10"]
    delete_message_flags[of thread_db hello "request_by 8 10"]
    delete_message_flags[of thread_db hello "request_by 9 10"]
  by (simp add: wf_db_def request_by_def thread_db_def empty_db_def hello_def thanks_def
      withdrawn_def)

subsection \<open>Not found or access denied\<close>




subsection \<open>Containment, trimming and LIKE\<close>

lemma startswith_iff: "startswith s p \<longleftrightarrow> (\<exists>ys. s = p @ ys)"
  by (induction s p rule: startswith.induct) auto

lemma str_in_iff: "str_in p s \<longleftrightarrow> (\<exists>xs ys. s = xs @ p @ ys)"
proof (induction s)
  case Nil
  then show ?case by auto
next
  case (Cons c cs)
  show ?case
  proof
    assume "str_in p (c # cs)"
    then consider "startswith (c # cs) p" | "str_in p cs" by auto
    then show "\<exists>xs ys. c # cs = xs @ p @ ys"
    proof cases
      case 1
      then obtain ys where "c # cs = p @ ys" by (auto simp: startswith_iff)
      then have "c # cs = [] @ p @ ys" by simp
      then show ?thesis by blast
    next
      case 2
      then obtain xs ys where "cs = xs @ p @ ys" using Cons.IH by auto
      then have "c # cs = (c # xs) @ p @ ys" by simp
      then show ?thesis by blast
    qed
  next
    assume "\<exists>xs ys. c # cs = xs @ p @ ys"
    then obtain xs ys where e: "c # cs = xs @ p @ ys" by auto
    show "str_in p (c # cs)"
    proof (cases xs)
      case Nil
      then have "startswith (c # cs) p" using e by (auto simp: startswith_iff)
      then show ?thesis by simp
    next
      case (Cons x xs')
      then have "cs = xs' @ p @ ys" using e by simp
      then have "str_in p cs" using Cons.IH by auto
      then show ?thesis by simp
    qed
  qed
qed




text \<open>Trimming keeps an occurrence of a pattern that neither starts nor ends with whitespace.\<close>

lemma dropWhile_keeps:
  assumes "p \<noteq> []" and "\<not> P (hd p)"
  shows "\<exists>xs'. dropWhile P (xs @ p @ ys) = xs' @ p @ ys \<and> set xs' \<subseteq> set xs"
proof (cases "\<forall>x \<in> set xs. P x")
  case True
  then have "dropWhile P (xs @ p @ ys) = dropWhile P (p @ ys)"
    by (simp add: dropWhile_append)
  also have "\<dots> = [] @ p @ ys" using assms by (cases p) auto
  finally show ?thesis by auto
next
  case False
  then have "dropWhile P (xs @ p @ ys) = dropWhile P xs @ p @ ys"
    by (auto simp: dropWhile_append)
  moreover have "set (dropWhile P xs) \<subseteq> set xs"
    by (auto dest: set_dropWhileD)
  ultimately show ?thesis by blast
qed

lemma strip_keeps:
  assumes "p \<noteq> []" and "\<not> isspace (hd p)" and "\<not> isspace (last p)"
  shows "\<exists>xs' ys'. strip (xs @ p @ ys) = xs' @ p @ ys' \<and> set xs' \<subseteq> set xs"
proof -
  obtain xs' where 1: "dropWhile isspace (xs @ p @ ys) = xs' @ p @ ys" "set xs' \<subseteq> set xs"
    using dropWhile_keeps[of p isspace xs ys] assms(1,2) by auto
  have "rev p \<noteq> []" "\<not> isspace (hd (rev p))" using assms(1,3) by (simp_all add: hd_rev)
  then obtain zs where 2: "dropWhile isspace (rev ys @ rev p @ rev xs') = zs @ rev p @ rev xs'"
    using dropWhile_keeps[of "rev p" isspace "rev ys" "rev xs'"] by auto
  have "strip (xs @ p @ ys) = rev (dropWhile isspace (rev ys @ rev p @ rev xs'))"
    by (simp add: strip_def 1)
  also have "\<dots> = xs' @ p @ rev zs" by (simp add: 2)
  finally show ?thesis using 1(2) by blast
qed

lemma str_in_strip:
  assumes "str_in p s" and "p \<noteq> []" and "\<not> isspace (hd p)" and "\<not> isspace (last p)"
  shows "str_in p (strip s)"
proof -
  obtain xs ys where s: "s = xs @ p @ ys" using assms(1) by (auto simp: str_in_iff)
  obtain xs' ys' where "strip (xs @ p @ ys) = xs' @ p @ ys'"
    using strip_keeps[OF assms(2-4), of xs ys] by auto
  then show ?thesis unfolding s str_in_iff by blast
qed


lemma marker_in_strip:
  "str_in ''Publication Request'' s \<Longrightarrow> str_in ''Publication Request'' (strip s)"
  by (rule str_in_strip) (simp_all add: isspace_def)


subsection \<open>Sending publication requests\<close>




subsection \<open>Replying\<close>

lemma reply_message_found:
  assumes wf: "wf_db d" and m: "m \<in> set (messages d)"
    and ok: "connects e 0" "raises e 0 = None"
    and recv: "receiver_id m = session_user_id e" and kept: "\<not> is_deleted_by_receiver m"
  shows "find (\<lambda>x. msg_id x = msg_id m \<and> receiver_id x = session_user_id e \<and>
                    \<not> is_deleted_by_receiver x) (messages d) = Some m"
proof -
  have ids: "distinct (map msg_id (messages d))"
    using wf by (simp add: wf_db_def)
  show ?thesis
    using find_by_id[OF ids m,
        of "\<lambda>x. receiver_id x = session_user_id e \<and> \<not> is_deleted_by_receiver x"]
      recv kept by simp
qed

text \<open>
  C5, as stated, fails for content that is not empty but blank: the handler trims the
  content before it tests it, so a reply of one space to a message the requester has
  received is refused with "Message content is required." and nothing is inserted.
\<close>

theorem reply_blank_content_inserts_nothing:
  "'' '' \<noteq> [] \<and>
   reply_message (request_by 8 7) hello_db 1 POST (Some '' '') =
     ((Some (''Message content is required.'', ''error''), reply_form hello_db hello),
      hello_db)"
  by (simp add: reply_message_def request_by_def hello_db_def empty_db_def hello_def
      strip_def isspace_def)

text \<open>
  C5, amended. When the original message exists, its receiver is the requester and the
  requester has not deleted it, a POSTed reply whose content is not empty after
  trimming inserts exactly one new message: sender the requester, receiver the
  original's sender, subject "Re: " followed by the original subject, the trimmed
  content, \<^verbatim>\<open>parent_message_id\<close> the original's id and \<^verbatim>\<open>sent_at\<close> the current
  time. A reply whose content is empty after trimming inserts nothing, and when no
  message with the id is accessible to the requester as receiver nothing is inserted
  either.
\<close>

theorem reply_message_inserts:
  assumes ok: "connects e 0" "raises e 0 = None" "raises e 1 = None"
  shows "(wf_db d \<and> m \<in> set (messages d) \<and> receiver_id m = session_user_id e \<and>
          \<not> is_deleted_by_receiver m \<and> strip c \<noteq> [] \<longrightarrow>
            reply_message e d (msg_id m) POST (Some c) =
              ((Some (''Reply sent successfully!'', ''success''), Redirect ''messages.inbox''),
               d\<lparr>messages := messages d @
                  [\<lparr>msg_id = next_id (messages d), sender_id = session_user_id e,
                    receiver_id = sender_id m, subject = ''Re: '' @ subject m,
                    content = strip c, message_type = ''personal'',
                    parent_message_id = Some (msg_id m), related_content_id = None,
                    related_user_id = None, sent_at = now e 0, is_read = False,
                    read_at = None, is_deleted_by_sender = False,
                    is_deleted_by_receiver = False\<rparr>]\<rparr>)) \<and>
         (strip c = [] \<longrightarrow> snd (reply_message e d mid POST (Some c)) = d) \<and>
         ((\<forall>x \<in> set (messages d).
             msg_id x = mid \<longrightarrow>
             \<not> (receiver_id x = session_user_id e \<and> \<not> is_deleted_by_receiver x)) \<longrightarrow>
            reply_message e d mid meth form_content =
              ((not_found_or_denied, Redirect ''messages.inbox''), d))"
proof (intro conjI impI)
  assume a: "wf_db d \<and> m \<in> set (messages d) \<and> receiver_id m = session_user_id e \<and>
          \<not> is_deleted_by_receiver m \<and> strip c \<noteq> []"
  then have f: "find (\<lambda>x. msg_id x = msg_id m \<and> receiver_id x = session_user_id e \<and>
                    \<not> is_deleted_by_receiver x) (messages d) = Some m"
    using reply_message_found[of d m e] ok by simp
  have "reply_message e d (msg_id m) POST (Some c) =
          ((Some (''Reply sent successfully!'', ''success''), Redirect ''messages.inbox''),
           insert_message d (session_user_id e) (sender_id m) (''Re: '' @ subject m) (strip c)
             ''personal'' (Some (msg_id m)) None None (now e 0))"
    using ok f a by (simp add: reply_message_def Let_def)
  then show "reply_message e d (msg_id m) POST (Some c) =
              ((Some (''Reply sent successfully!'', ''success''), Redirect ''messages.inbox''),
               d\<lparr>messages := messages d @
                  [\<lparr>msg_id = next_id (messages d), sender_id = session_user_id e,
                    receiver_id = sender_id m, subject = ''Re: '' @ subject m,
                    content = strip c, message_type = ''personal'',
                    parent_message_id = Some (msg_id m), related_content_id = None,
                    related_user_id = None, sent_at = now e 0, is_read = False,
                    read_at = None, is_deleted_by_sender = False,
                    is_deleted_by_receiver = False\<rparr>]\<rparr>)"
    unfolding insert_message_def .
next
  assume "strip c = []"
  then show "snd (reply_message e d mid POST (Some c)) = d"
    using ok by (simp add: reply_message_def Let_def split: option.split)
next
  assume "\<forall>x \<in> set (messages d).
             msg_id x = mid \<longrightarrow>
             \<not> (receiver_id x = session_user_id e \<and> \<not> is_deleted_by_receiver x)"
  then have "find (\<lambda>x. msg_id x = mid \<and> receiver_id x = session_user_id e \<and>
                    \<not> is_deleted_by_receiver x) (messages d) = None"
    by (auto simp: find_None_iff)
  then show "reply_message e d mid meth form_content =
              ((not_found_or_denied, Redirect ''messages.inbox''), d)"
    using ok by (simp add: reply_message_def)
qed

theorem reply_message_inserts_witness:
  "wf_db hello_db \<and> hello \<in> set (messages hello_db) \<and> strip ''Thanks'' \<noteq> [] \<and>
   messages (snd (reply_message (request_by 8 7) hello_db 1 POST (Some ''Thanks''))) =
     [hello, thanks] \<and>
   snd (reply_message (request_by 8 7) hello_db 1 POST (Some ''  '')) = hello_db \<and>
   snd (reply_message (request_by 5 7) hello_db 1 POST (Some ''Thanks'')) = hello_db"
proof -
  have env: "connects (request_by u 7) 0" "raises (request_by u 7) 0 = None"
    "raises (request_by u 7) 1 = None" for u
    by (simp_all add: request_by_def)
  have pre: "wf_db hello_db" "hello \<in> set (messages hello_db)" "strip ''Thanks'' \<noteq> []"
    "receiver_id hello = session_user_id (request_by 8 7)" "\<not> is_deleted_by_receiver hello"
    "msg_id hello = 1" "strip ''  '' = []"
    by (simp_all add: wf_db_def hello_db_def empty_db_def hello_def strip_def isspace_def
        request_by_def)
  note t8 = reply_message_inserts[where e = "request_by 8 7" and d = hello_db, OF env]
  note t5 = reply_message_inserts[where e = "request_by 5 7" and d = hello_db, OF env]
  have 1: "messages (snd (reply_message (request_by 8 7) hello_db 1 POST (Some ''Thanks''))) =
           [hello, thanks]"
    using conjunct1[OF t8[where m = hello and c = "''Thanks''"]] pre
    by (simp add: hello_db_def empty_db_def hello_def thanks_def next_id_def strip_def
        isspace_def request_by_def)
  have 2: "snd (reply_message (request_by 8 7) hello_db 1 POST (Some ''  '')) = hello_db"
    using conjunct1[OF conjunct2[OF t8[where c = "''  ''" and mid = 1]]] pre by simp
  have 3: "snd (reply_message (request_by 5 7) hello_db 1 POST (Some ''Thanks'')) = hello_db"
    using conjunct2[OF conjunct2[OF t5[where mid = 1 and meth = POST
            and form_content = "Some ''Thanks''"]]]
    by (simp add: hello_db_def empty_db_def hello_def request_by_def)
  show ?thesis using pre 1 2 3 by (intro conjI)
qed

subsection \<open>System messages\<close>

lemma insert_message_row:
  "insert_message d sender receiver subj body mtype parent rel_content rel_user sent =
     d\<lparr>messages := messages d @
        [\<lparr>msg_id = next_id (messages d), sender_id = sender, receiver_id = receiver,
          subject = subj, content = body, message_type = mtype,
          parent_message_id = parent, related_content_id = rel_content,
          related_user_id = rel_user, sent_at = sent, is_read = False, read_at = None,
          is_deleted_by_sender = False, is_deleted_by_receiver = False\<rparr>]\<rparr>"
  by (rule insert_message_def)

text \<open>The duplicate guard of the JSON send operation.\<close>

lemma send_message_rejects_duplicate:
  assumes "connects e 0" "raises e 0 = None" "r \<noteq> 0" "c \<noteq> 0"
    and "str_in ''Publication Request'' s" "strip b \<noteq> []"
    and "publication_requests d (session_user_id e) r c \<noteq> []"
  shows "send_message e d (Some r) s b (Some c) = (json_failure duplicate_request_error 400, d)"
proof -
  have m: "str_in ''Publication Request'' (strip s)"
    using assms(5) by (rule marker_in_strip)
  then have "strip s \<noteq> []" by auto
  then show ?thesis
    using assms m by (simp add: send_message_def Let_def)
qed

text \<open>
  C9. Whatever its arguments and whatever the store holds, the system-message helper,
  when it gets a connection and its insert does not raise, returns true and inserts
  exactly one message whose sender is user 1; when it gets no connection or the insert
  raises, it returns false and the store is unchanged. It has no duplicate guard: where
  the JSON send operation of user 1 rejects a publication request as a duplicate, the
  helper with the same arguments still inserts a row.
\<close>

theorem send_system_message_result:
  "(connects e 0 \<and> raises e 0 = None \<longrightarrow>
      send_system_message e d r s b t rc ru =
        (True, d\<lparr>messages := messages d @
           [\<lparr>msg_id = next_id (messages d), sender_id = 1, receiver_id = r, subject = s,
             content = b, message_type = t, parent_message_id = None,
             related_content_id = rc, related_user_id = ru, sent_at = now e 0,
             is_read = False, read_at = None, is_deleted_by_sender = False,
             is_deleted_by_receiver = False\<rparr>]\<rparr>)) \<and>
   (\<not> connects e 0 \<or> raises e 0 \<noteq> None \<longrightarrow>
      send_system_message e d r s b t rc ru = (False, d)) \<and>
   (connects e 0 \<and> raises e 0 = None \<and> session_user_id e = 1 \<and> r \<noteq> 0 \<and> c \<noteq> 0 \<and>
    str_in ''Publication Request'' s \<and> strip b \<noteq> [] \<and>
    publication_requests d 1 r c \<noteq> [] \<longrightarrow>
      send_message e d (Some r) s b (Some c) = (json_failure duplicate_request_error 400, d) \<and>
      fst (send_system_message e d r s b t (Some c) ru) = True \<and>
      length (messages (snd (send_system_message e d r s b t (Some c) ru))) =
        Suc (length (messages d)))"
proof (intro conjI impI)
  assume "connects e 0 \<and> raises e 0 = None"
  then show "send_system_message e d r s b t rc ru =
        (True, d\<lparr>messages := messages d @
           [\<lparr>msg_id = next_id (messages d), sender_id = 1, receiver_id = r, subject = s,
             content = b, message_type = t, parent_message_id = None,
             related_content_id = rc, related_user_id = ru, sent_at = now e 0,
             is_read = False, read_at = None, is_deleted_by_sender = False,
             is_deleted_by_receiver = False\<rparr>]\<rparr>)"
    unfolding insert_message_row[symmetric] by (simp add: send_system_message_def)
next
  assume "\<not> connects e 0 \<or> raises e 0 \<noteq> None"
  then show "send_system_message e d r s b t rc ru = (False, d)"
    by (auto simp: send_system_message_def)
next
  assume a: "connects e 0 \<and> raises e 0 = None \<and> session_user_id e = 1 \<and> r \<noteq> 0 \<and> c \<noteq> 0 \<and>
    str_in ''Publication Request'' s \<and> strip b \<noteq> [] \<and>
    publication_requests d 1 r c \<noteq> []"
  then show "send_message e d (Some r) s b (Some c) =
             (json_failure duplicate_request_error 400, d)"
    using send_message_rejects_duplicate[of e r c s b d] by simp
  show "fst (send_system_message e d r s b t (Some c) ru) = True"
    using a by (simp add: send_system_message_def)
  show "length (messages (snd (send_system_message e d r s b t (Some c) ru))) =
        Suc (length (messages d))"
    using a by (simp add: send_system_message_def insert_message_def)
qed

theorem send_system_message_result_witness:
  "publication_requests (empty_db\<lparr>messages := [request3, notice]\<rparr>) 1 5 3 = [notice] \<and>
   send_system_message (request_by 9 6) request3_db 5 ''Publication Request approved''
      ''Unit 3 is published'' ''system'' (Some 3) None =
     (True, empty_db\<lparr>messages := [request3, notice]\<rparr>) \<and>
   map sender_id (messages (snd (send_system_message (request_by 1 8)
      (empty_db\<lparr>messages := [request3, notice]\<rparr>) 5 ''Publication Request approved''
      ''Unit 3 is published'' ''system'' (Some 3) None))) = [5, 1, 1] \<and>
   send_message (request_by 1 8) (empty_db\<lparr>messages := [request3, notice]\<rparr>) (Some 5)
      ''Publication Request approved'' ''Unit 3 is published'' (Some 3) =
     (json_failure duplicate_request_error 400, empty_db\<lparr>messages := [request3, notice]\<rparr>) \<and>
   send_system_message ((request_by 1 8)\<lparr>connects := (\<lambda>k. False)\<rparr>) request3_db 5
      ''Publication Request approved'' ''Unit 3 is published'' ''system'' (Some 3) None =
     (False, request3_db)"
proof -
  let ?d = "empty_db\<lparr>messages := [request3, notice]\<rparr>"
  have reqs: "publication_requests ?d 1 5 3 = [notice]"
    by (simp add: publication_requests_def empty_db_def request3_def notice_def
        like_publication_request_def c_string_def ascii_lower_def)
  have 1: "send_system_message (request_by 9 6) request3_db 5 ''Publication Request approved''
      ''Unit 3 is published'' ''system'' (Some 3) None = (True, ?d)"
    using conjunct1[OF send_system_message_result[of "request_by 9 6" request3_db 5
          "''Publication Request approved''" "''Unit 3 is published''" "''system''"
          "Some 3" None]]
    by (simp add: request_by_def request3_db_def empty_db_def request3_def notice_def
        next_id_def)
  have 2: "map sender_id (messages (snd (send_system_message (request_by 1 8) ?d 5
      ''Publication Request approved'' ''Unit 3 is published'' ''system'' (Some 3) None))) =
      [5, 1, 1]"
    using conjunct1[OF send_system_message_result[of "request_by 1 8" ?d 5
          "''Publication Request approved''" "''Unit 3 is published''" "''system''"
          "Some 3" None]]
    by (simp add: request_by_def empty_db_def request3_def notice_def)
  have 3: "send_message (request_by 1 8) ?d (Some 5)
      ''Publication Request approved'' ''Unit 3 is published'' (Some 3) =
     (json_failure duplicate_request_error 400, ?d)"
    using conjunct2[OF conjunct2[OF send_system_message_result[where e = "request_by 1 8"
          and r = 5 and c = 3 and s = "''Publication Request approved''"
          and b = "''Unit 3 is published''" and d = ?d]]] reqs
    by (simp add: request_by_def strip_def isspace_def)
  have 4: "send_system_message ((request_by 1 8)\<lparr>connects := (\<lambda>k. False)\<rparr>) request3_db 5
      ''Publication Request approved'' ''Unit 3 is published'' ''system'' (Some 3) None =
     (False, request3_db)"
    using conjunct1[OF conjunct2[OF send_system_message_result[of
          "(request_by 1 8)\<lparr>connects := (\<lambda>k. False)\<rparr>" request3_db 5
          "''Publication Request approved''" "''Unit 3 is published''" "''system''"
          "Some 3" None]]]
    by simp
  show ?thesis using reqs 1 2 3 4 by (intro conjI)
qed

subsection \<open>Checking for a publication request\<close>





subsection \<open>Notification settings\<close>

lemma update_notification_append:
  "update_notification e form k t (xs @ ys) =
   update_notification e form k t xs @ update_notification e form k t ys"
  by (simp add: update_notification_def)

text \<open>What the four passes of the loop together do to one row, and to all rows.\<close>

lemma update_notification_row:
  "update_notification e form 3 ''content_feedback''
     (update_notification e form 2 ''system_announcement''
        (update_notification e form 1 ''message_reply''
           (update_notification e form 0 ''new_message'' [r]))) =
   [if user_id r = session_user_id e \<and>
       notification_type r \<in> {''new_message'', ''message_reply'',
                               ''system_announcement'', ''content_feedback''}
    then r\<lparr>is_enabled := (form (notification_type r @ ''_enabled'') = Some ''on''),
           email_enabled := (form (notification_type r @ ''_email'') = Some ''on''),
           updated_at := now e
             (if notification_type r = ''new_message'' then 0
              else if notification_type r = ''message_reply'' then 1
              else if notification_type r = ''system_announcement'' then 2
              else 3)\<rparr>
    else r]"
proof (cases "user_id r = session_user_id e")
  case False
  then show ?thesis by (simp add: update_notification_def)
next
  case u: True
  consider (a) "notification_type r = ''new_message''"
    | (b) "notification_type r = ''message_reply''"
    | (c) "notification_type r = ''system_announcement''"
    | (d) "notification_type r = ''content_feedback''"
    | (other) "notification_type r \<noteq> ''new_message''" "notification_type r \<noteq> ''message_reply''"
        "notification_type r \<noteq> ''system_announcement''"
        "notification_type r \<noteq> ''content_feedback''"
    by blast
  then show ?thesis
  proof cases
    case a
    then show ?thesis using u by (simp add: update_notification_def)
  next
    case b
    then show ?thesis using u by (simp add: update_notification_def)
  next
    case c
    then show ?thesis using u by (simp add: update_notification_def)
  next
    case d
    then show ?thesis using u by (simp add: update_notification_def)
  next
    case other
    then show ?thesis using u by (simp add: update_notification_def)
  qed
qed


lemma update_notification_passes:
  "update_notification e form 3 ''content_feedback''
     (update_notification e form 2 ''system_announcement''
        (update_notification e form 1 ''message_reply''
           (update_notification e form 0 ''new_message'' rs))) =
   map (\<lambda>r. if user_id r = session_user_id e \<and>
                 notification_type r \<in> {''new_message'', ''message_reply'',
                                         ''system_announcement'', ''content_feedback''}
              then r\<lparr>is_enabled := (form (notification_type r @ ''_enabled'') = Some ''on''),
                     email_enabled := (form (notification_type r @ ''_email'') = Some ''on''),
                     updated_at := now e
                       (if notification_type r = ''new_message'' then 0
                        else if notification_type r = ''message_reply'' then 1
                        else if notification_type r = ''system_announcement'' then 2
                        else 3)\<rparr>
              else r) rs"
proof (induction rs)
  case Nil
  show ?case by (simp add: update_notification_def)
next
  case (Cons r rs)
  have "r # rs = [r] @ rs" by simp
  then show ?case
    unfolding \<open>r # rs = [r] @ rs\<close> update_notification_append update_notification_row
      Cons.IH
    by simp
qed

lemma update_loop_passes:
  assumes "raises e 0 = None" "raises e 1 = None" "raises e 2 = None" "raises e 3 = None"
  shows "update_loop e form 0 notification_types rs =
         Inr (update_notification e form 3 ''content_feedback''
               (update_notification e form 2 ''system_announcement''
                 (update_notification e form 1 ''message_reply''
                   (update_notification e form 0 ''new_message'' rs))))"
  using assms by (simp add: notification_types_def numeral_2_eq_2 numeral_3_eq_3)

text \<open>
  C8. When the store answers, the update of the notification settings changes exactly
  the rows of the requesting user whose type is one of the four keys
  \<^verbatim>\<open>new_message\<close>, \<^verbatim>\<open>message_reply\<close>, \<^verbatim>\<open>system_announcement\<close>,
  \<^verbatim>\<open>content_feedback\<close>: each gets the two flags read from the form fields of its
  key (true iff the field is "on") and the time of its pass. Every other row is as
  before, and the rows keep their users and types in the same order: no row is created
  or removed, so a key for which the user has no row has none afterwards, and a user
  without rows leaves the store unchanged.
\<close>

theorem update_notification_settings_rows:
  assumes ok: "connects e 0" "raises e 0 = None" "raises e 1 = None" "raises e 2 = None"
    "raises e 3 = None"
  shows "update_notification_settings e d form =
           ((Some (''Notification settings updated successfully!'', ''success''),
             Redirect ''messages.notification_settings''),
            d\<lparr>message_notifications :=
                 map (\<lambda>r. if user_id r = session_user_id e \<and>
                               notification_type r \<in> {''new_message'', ''message_reply'',
                                  ''system_announcement'', ''content_feedback''}
                            then r\<lparr>is_enabled :=
                                     (form (notification_type r @ ''_enabled'') = Some ''on''),
                                   email_enabled :=
                                     (form (notification_type r @ ''_email'') = Some ''on''),
                                   updated_at := now e
                                     (if notification_type r = ''new_message'' then 0
                                      else if notification_type r = ''message_reply'' then 1
                                      else if notification_type r = ''system_announcement''
                                      then 2 else 3)\<rparr>
                            else r) (message_notifications d)\<rparr>) \<and>
         map (\<lambda>r. (user_id r, notification_type r))
             (message_notifications (snd (update_notification_settings e d form))) =
           map (\<lambda>r. (user_id r, notification_type r)) (message_notifications d) \<and>
         (\<forall>t. (\<forall>r \<in> set (message_notifications d).
                  \<not> (user_id r = session_user_id e \<and> notification_type r = t)) \<longrightarrow>
              (\<forall>r \<in> set (message_notifications (snd (update_notification_settings e d form))).
                  \<not> (user_id r = session_user_id e \<and> notification_type r = t))) \<and>
         ((\<forall>r \<in> set (message_notifications d). user_id r \<noteq> session_user_id e) \<longrightarrow>
            snd (update_notification_settings e d form) = d)"
proof -
  let ?F = "\<lambda>r. if user_id r = session_user_id e \<and>
                               notification_type r \<in> {''new_message'', ''message_reply'',
                                  ''system_announcement'', ''content_feedback''}
                            then r\<lparr>is_enabled :=
                                     (form (notification_type r @ ''_enabled'') = Some ''on''),
                                   email_enabled :=
                                     (form (notification_type r @ ''_email'') = Some ''on''),
                                   updated_at := now e
                                     (if notification_type r = ''new_message'' then 0
                                      else if notification_type r = ''message_reply'' then 1
                                      else if notification_type r = ''system_announcement''
                                      then 2 else 3)\<rparr>
                            else r"
  let ?rs = "message_notifications d"
  have loop: "update_loop e form 0 notification_types ?rs = Inr (map ?F ?rs)"
    unfolding update_loop_passes[OF ok(2-5)] update_notification_passes ..
  have main: "update_notification_settings e d form =
           ((Some (''Notification settings updated successfully!'', ''success''),
             Redirect ''messages.notification_settings''),
            d\<lparr>message_notifications := map ?F ?rs\<rparr>)"
    unfolding update_notification_settings_def loop using ok(1) by simp
  have key: "(user_id (?F r), notification_type (?F r)) = (user_id r, notification_type r)" for r
    by simp
  have keys: "map (\<lambda>r. (user_id r, notification_type r)) (map ?F ?rs) =
              map (\<lambda>r. (user_id r, notification_type r)) ?rs"
    unfolding map_map o_def key ..
  have rows: "message_notifications (snd (update_notification_settings e d form)) = map ?F ?rs"
    unfolding main by simp
  have none: "\<forall>t. (\<forall>r \<in> set ?rs. \<not> (user_id r = session_user_id e \<and> notification_type r = t)) \<longrightarrow>
              (\<forall>r \<in> set (map ?F ?rs). \<not> (user_id r = session_user_id e \<and> notification_type r = t))"
  proof (intro allI impI ballI)
    fix t r'
    assume a: "\<forall>r \<in> set ?rs. \<not> (user_id r = session_user_id e \<and> notification_type r = t)"
      and "r' \<in> set (map ?F ?rs)"
    then obtain r where r: "r \<in> set ?rs" "r' = ?F r" by auto
    have "(user_id r', notification_type r') = (user_id r, notification_type r)"
      unfolding r(2) by (rule key)
    then show "\<not> (user_id r' = session_user_id e \<and> notification_type r' = t)"
      using a r(1) by auto
  qed
  have same: "snd (update_notification_settings e d form) = d"
    if "\<forall>r \<in> set ?rs. user_id r \<noteq> session_user_id e"
  proof -
    have "map ?F ?rs = map (\<lambda>r. r) ?rs"
      by (rule map_cong[OF refl]) (use that in auto)
    then show ?thesis unfolding main by simp
  qed
  show ?thesis
    unfolding rows using main keys none same by (intro conjI impI)
qed


theorem update_notification_settings_rows_witness:
  "connects (request_by 5 10) 0 \<and> raises (request_by 5 10) 3 = None \<and>
   message_notifications (snd (update_notification_settings (request_by 5 10)
      (empty_db\<lparr>message_notifications := settings\<rparr>) settings_form)) =
     [\<lparr>user_id = 5, notification_type = ''new_message'', is_enabled = True,
       email_enabled = False, updated_at = 10\<rparr>,
      \<lparr>user_id = 8, notification_type = ''new_message'', is_enabled = False,
       email_enabled = False, updated_at = 1\<rparr>,
      \<lparr>user_id = 5, notification_type = ''content_feedback'', is_enabled = False,
       email_enabled = False, updated_at = 13\<rparr>]"
proof -
  have env: "connects (request_by 5 10) 0" "raises (request_by 5 10) 0 = None"
    "raises (request_by 5 10) 1 = None" "raises (request_by 5 10) 2 = None"
    "raises (request_by 5 10) 3 = None"
    by (simp_all add: request_by_def)
  note t = conjunct1[OF update_notification_settings_rows[OF env,
        of "empty_db\<lparr>message_notifications := settings\<rparr>" settings_form]]
  have "message_notifications (snd (update_notification_settings (request_by 5 10)
      (empty_db\<lparr>message_notifications := settings\<rparr>) settings_form)) =
     [\<lparr>user_id = 5, notification_type = ''new_message'', is_enabled = True,
       email_enabled = False, updated_at = 10\<rparr>,
      \<lparr>user_id = 8, notification_type = ''new_message'', is_enabled = False,
       email_enabled = False, updated_at = 1\<rparr>,
      \<lparr>user_id = 5, notification_type = ''content_feedback'', is_enabled = False,
       email_enabled = False, updated_at = 13\<rparr>]"
    unfolding t by (simp add: empty_db_def settings_def settings_form_def request_by_def)
  then show ?thesis using env by (intro conjI)
qed

end
